theory Spec2Isabelle
  imports Complex_Main "HOL-Library.Sublist"
begin

section \<open>Python values shared by both agents\<close>

text \<open>
  Exceptions are values. \<open>Exception m\<close> stands for any subclass of Python's
  \<open>Exception\<close> other than \<open>asyncio.TimeoutError\<close>, with \<open>str(e) = m\<close>;
  \<open>TimeoutError\<close> is \<open>asyncio.TimeoutError\<close> (itself a subclass of \<open>Exception\<close>);
  \<open>KeyboardInterrupt\<close> and \<open>BaseException m\<close> (\<open>SystemExit\<close>, \<open>CancelledError\<close>)
  are not caught by an \<open>except Exception\<close> clause.
\<close>

datatype exn = Exception string | TimeoutError | KeyboardInterrupt | BaseException string

fun is_Exception :: "exn \<Rightarrow> bool" where
  "is_Exception (Exception m) = True"
| "is_Exception TimeoutError = True"
| "is_Exception KeyboardInterrupt = False"
| "is_Exception (BaseException m) = False"

fun str_exn :: "exn \<Rightarrow> string" where
  "str_exn (Exception m) = m"
| "str_exn TimeoutError = []"
| "str_exn KeyboardInterrupt = []"
| "str_exn (BaseException m) = m"

text \<open>
  A dictionary with string keys and string values; \<open>d.get(k)\<close> is \<open>d k\<close>, with
  \<open>None\<close> for a missing key. Python's truth test of such a value: \<open>None\<close> and the
  empty string are false.
\<close>

type_synonym dict = "string \<rightharpoonup> string"

definition truthy :: "string option \<Rightarrow> bool" where
  "truthy v = (case v of None \<Rightarrow> False | Some s \<Rightarrow> s \<noteq> [])"

section \<open>Voice-Agent: the bounded history (\<open>collections.deque\<close>)\<close>

text \<open>
  \<open>deque(maxlen=n)\<close>: \<open>append\<close> adds at the right end and, when the deque is
  then longer than \<open>maxlen\<close>, discards one item from the left end.
\<close>

record 'a deque =
  items :: "'a list"
  maxlen :: "nat option"

definition deque :: "nat option \<Rightarrow> 'a deque" where
  "deque n = \<lparr>items = [], maxlen = n\<rparr>"

definition deque_append :: "'a deque \<Rightarrow> 'a \<Rightarrow> 'a deque" where
  "deque_append d x =
     (let xs = items d @ [x]
      in case maxlen d of
           None \<Rightarrow> d\<lparr>items := xs\<rparr>
         | Some n \<Rightarrow> if length xs > n then d\<lparr>items := tl xs\<rparr> else d\<lparr>items := xs\<rparr>)"

text \<open>\<open>CoralAgent.__init__\<close>: \<open>self.history = deque(maxlen=3)\<close>.\<close>

definition initial_history :: "'a deque" where
  "initial_history = deque (Some 3)"

declare initial_history_def [code_unfold]

text \<open>The history after a sequence of \<open>history.append(q)\<close> calls, oldest call first.\<close>

definition appends :: "'a deque \<Rightarrow> 'a list \<Rightarrow> 'a deque" where
  "appends d qs = foldl deque_append d qs"

section \<open>Browser-Agent: the mention loop of \<open>main\<close>\<close>

definition SLEEP_INTERVAL :: nat where
  "SLEEP_INTERVAL = 1"

definition ERROR_RETRY_INTERVAL :: nat where
  "ERROR_RETRY_INTERVAL = 5"

text \<open>
  What \<open>wait_for_mentions\<close> hands back: a Python \<open>str\<close>, or a value of another
  type \<open>'r\<close>.
\<close>

datatype 'r mentions_response = Str string | NonStr 'r

text \<open>
  The calls the loop makes on its collaborators, in the order it makes them. A call is
  recorded when it is made, whether it returns or raises. \<open>SendMessage\<close> carries the
  \<open>threadId\<close>, \<open>content\<close> and \<open>mentions\<close> of the payload, \<open>ProcessAgentQuery\<close>
  the \<open>input_query\<close>, \<open>tool_result\<close>, \<open>last_tool_call\<close> and \<open>step\<close> arguments,
  \<open>WaitForMentions\<close> the \<open>timeoutMs\<close>, \<open>Sleep\<close> the seconds slept. The
  \<open>logger.info\<close> calls are not recorded.
\<close>

datatype event =
    GetResources
  | WaitForMentions nat
  | Sleep nat
  | LogWarning string
  | SendMessage "string option" string "string option list"
  | ProcessAgentQuery string "string option" "string option" nat
  | LogError string
  | LogDebugTraceback

text \<open>
  What the collaborators do during one pass of the loop: \<open>get_resources\<close> is
  \<open>client.get_resources\<close> followed by \<open>mcp_resources_details\<close> (the value is never
  read, so only a raised exception matters), \<open>wait_for_mentions\<close> and
  \<open>send_message\<close> are the hub tools, \<open>process_agent_query\<close> is the browser engine,
  whose result is taken as the text \<open>str(browser_result)\<close>.
\<close>

record 'r world =
  get_resources :: "exn option"
  wait_for_mentions :: "exn + 'r mentions_response"
  process_agent_query :: "string \<Rightarrow> string option \<Rightarrow> string option \<Rightarrow> nat \<Rightarrow> exn + string"
  send_message :: "string option \<Rightarrow> string \<Rightarrow> string option list \<Rightarrow> exn option"

text \<open>
  The result of a block of the loop: the value of \<open>step\<close> after it, the calls it
  made, and the exception that left it (\<open>None\<close> when it ran to its end or to a
  \<open>continue\<close>).
\<close>

type_synonym outcome = "nat \<times> event list \<times> exn option"

definition emit :: "event list \<Rightarrow> outcome \<Rightarrow> outcome" where
  "emit es r = (case r of (s, t, x) \<Rightarrow> (s, es @ t, x))"

definition step_of :: "outcome \<Rightarrow> nat" where
  "step_of r = fst r"

definition events_of :: "outcome \<Rightarrow> event list" where
  "events_of r = fst (snd r)"

definition raised_of :: "outcome \<Rightarrow> exn option" where
  "raised_of r = snd (snd r)"

text \<open>\<open>isinstance(mentions_response, str) and "No new messages" in mentions_response\<close>\<close>

definition no_new_messages :: "'r mentions_response \<Rightarrow> bool" where
  "no_new_messages r = (case r of Str s \<Rightarrow> sublist ''No new messages'' s | NonStr v \<Rightarrow> False)"

text \<open>\<open>all([thread_id, sender_id, content])\<close>\<close>

definition py_all :: "string option list \<Rightarrow> bool" where
  "py_all vs = list_all truthy vs"

text \<open>How an f-string prints a value that may be \<open>None\<close>.\<close>

definition fmt :: "string option \<Rightarrow> string" where
  "fmt v = (case v of None \<Rightarrow> ''None'' | Some s \<Rightarrow> s)"

text \<open>The text of a value known to be a string.\<close>

definition text_of :: "string option \<Rightarrow> string" where
  "text_of v = (case v of None \<Rightarrow> [] | Some s \<Rightarrow> s)"

text \<open>Lines 139 to 147: the reply to a message with a missing field.\<close>

definition reply_missing_fields :: "'r world \<Rightarrow> nat \<Rightarrow> string option \<Rightarrow> string option \<Rightarrow> outcome" where
  "reply_missing_fields w step thread_id sender_id =
     emit [LogWarning (''Missing message fields: thread_id='' @ fmt thread_id
                        @ '', sender_id='' @ fmt sender_id),
           SendMessage thread_id ''Error: Missing message fields'' [sender_id]]
       (case send_message w thread_id ''Error: Missing message fields'' [sender_id] of
          Some e \<Rightarrow> (step, [], Some e)
        | None \<Rightarrow> (step, [Sleep SLEEP_INTERVAL], None))"

text \<open>
  Lines 149 to 172: the query goes to the engine, \<open>step\<close> is incremented once the
  engine has returned, and the answer is sent to the thread.
\<close>

definition dispatch_and_reply :: "'r world \<Rightarrow> nat \<Rightarrow> string option \<Rightarrow> string option \<Rightarrow> string \<Rightarrow> outcome" where
  "dispatch_and_reply w step thread_id sender_id input_query =
     emit [ProcessAgentQuery input_query None None step]
       (case process_agent_query w input_query None None step of
          Inl e \<Rightarrow> (step, [], Some e)
        | Inr answer \<Rightarrow>
            emit [SendMessage thread_id answer [sender_id]]
              (case send_message w thread_id answer [sender_id] of
                 Some e \<Rightarrow> (step + 1, [], Some e)
               | None \<Rightarrow> (step + 1, [Sleep SLEEP_INTERVAL], None)))"

text \<open>Lines 134 to 172, for the lead message of the batch.\<close>

definition handle_message :: "'r world \<Rightarrow> nat \<Rightarrow> dict \<Rightarrow> outcome" where
  "handle_message w step message =
     (let thread_id = message ''threadId'';
          sender_id = message ''senderId'';
          content = message ''content''
      in if \<not> py_all [thread_id, sender_id, content]
         then reply_missing_fields w step thread_id sender_id
         else dispatch_and_reply w step thread_id sender_id (text_of content))"

text \<open>
  Lines 130 to 172: \<open>if not messages or not messages[0].get('threadId')\<close> sleeps and
  continues; otherwise \<open>messages[0]\<close> is handled.
\<close>

definition handle_batch :: "'r world \<Rightarrow> nat \<Rightarrow> dict list \<Rightarrow> outcome" where
  "handle_batch w step messages =
     (case messages of
        [] \<Rightarrow> (step, [Sleep SLEEP_INTERVAL], None)
      | message # rest \<Rightarrow>
          if \<not> truthy (message ''threadId'')
          then (step, [Sleep SLEEP_INTERVAL], None)
          else handle_message w step message)"

text \<open>
  The body of the \<open>try\<close> (lines 117 to 172). \<open>parse_mentions_response\<close> lives in
  \<open>utils/coral_config.py\<close>, which is not among the sources, and is a parameter.
\<close>

definition try_block ::
  "('r mentions_response \<Rightarrow> exn + dict list) \<Rightarrow> 'r world \<Rightarrow> nat \<Rightarrow> outcome" where
  "try_block parse_mentions_response w step =
     emit [GetResources]
       (case get_resources w of
          Some e \<Rightarrow> (step, [], Some e)
        | None \<Rightarrow>
            emit [WaitForMentions 30000]
              (case wait_for_mentions w of
                 Inl e \<Rightarrow> (step, [], Some e)
               | Inr mentions_response \<Rightarrow>
                   if no_new_messages mentions_response
                   then (step, [Sleep SLEEP_INTERVAL], None)
                   else (case parse_mentions_response mentions_response of
                           Inl e \<Rightarrow> (step, [], Some e)
                         | Inr messages \<Rightarrow> handle_batch w step messages)))"

text \<open>
  One pass of \<open>while True\<close>: the \<open>try\<close> and its \<open>except Exception as e\<close> clause
  (lines 177 to 179), which logs and falls through to the next pass. An exception that
  is not an \<open>Exception\<close> leaves the loop.
\<close>

definition loop_iteration ::
  "('r mentions_response \<Rightarrow> exn + dict list) \<Rightarrow> 'r world \<Rightarrow> nat \<Rightarrow> outcome" where
  "loop_iteration parse_mentions_response w step =
     (case try_block parse_mentions_response w step of
        (s, t, None) \<Rightarrow> (s, t, None)
      | (s, t, Some e) \<Rightarrow>
          if is_Exception e
          then (s, t @ [LogError (''Error in agent loop: '' @ str_exn e), LogDebugTraceback], None)
          else (s, t, Some e))"

text \<open>
  The loop never ends by itself. Its runs are observed on finite prefixes: the list
  holds what the collaborators do in the first, second, ... pass, and the result is
  the state and the calls made once these passes are over (or once an exception has
  left the loop).
\<close>

fun main_loop ::
  "('r mentions_response \<Rightarrow> exn + dict list) \<Rightarrow> 'r world list \<Rightarrow> nat \<Rightarrow> outcome" where
  "main_loop parse_mentions_response [] step = (step, [], None)"
| "main_loop parse_mentions_response (w # ws) step =
     (case loop_iteration parse_mentions_response w step of
        (s, t, None) \<Rightarrow> emit t (main_loop parse_mentions_response ws s)
      | (s, t, Some e) \<Rightarrow> (s, t, Some e))"


text \<open>The replies, the dispatches and the sleeps among the calls made.\<close>

fun is_send :: "event \<Rightarrow> bool" where
  "is_send (SendMessage t c m) = True"
| "is_send e = False"

fun is_dispatch :: "event \<Rightarrow> bool" where
  "is_dispatch (ProcessAgentQuery q a b s) = True"
| "is_dispatch e = False"

fun is_sleep :: "event \<Rightarrow> bool" where
  "is_sleep (Sleep n) = True"
| "is_sleep e = False"

definition sends :: "event list \<Rightarrow> event list" where
  "sends t = filter is_send t"

definition dispatches :: "event list \<Rightarrow> event list" where
  "dispatches t = filter is_dispatch t"

definition sleeps :: "event list \<Rightarrow> event list" where
  "sleeps t = filter is_sleep t"


text \<open>Scenarios: a parser that yields a given batch, and a world given by three answers.\<close>

definition parse_const :: "dict list \<Rightarrow> 'r mentions_response \<Rightarrow> exn + dict list" where
  "parse_const ms r = Inr ms"

definition world_of :: "exn + 'r mentions_response \<Rightarrow> exn + string \<Rightarrow> exn option \<Rightarrow> 'r world" where
  "world_of poll engine hub =
     \<lparr>get_resources = None, wait_for_mentions = poll,
      process_agent_query = (\<lambda>q a b s. engine), send_message = (\<lambda>t c m. hub)\<rparr>"

section \<open>Voice-Agent: \<open>ConversationManager.call_coral_agent\<close>\<close>

text \<open>
  The text that \<open>call_coral_agent\<close> receives, strips and stores is a Python \<open>str\<close>:
  a sequence of Unicode code points. It is modelled as the list of these code
  points, since \<open>str.strip()\<close> depends on them; \<open>ustr\<close> turns a literal into such a
  text.
\<close>

type_synonym ustr = "nat list"

definition ustr :: "string \<Rightarrow> ustr" where
  "ustr s = map of_char s"

text \<open>
  \<open>str.strip()\<close> removes leading and trailing whitespace. The whitespace code points
  of a \<open>str\<close> are U+0009 to U+000D, U+001C to U+0020, U+0085, U+00A0, U+1680, U+2000 to
  U+200A, U+2028, U+2029, U+202F, U+205F and U+3000.
\<close>

definition isspace :: "nat \<Rightarrow> bool" where
  "isspace c =
     ((0x09 \<le> c \<and> c \<le> 0x0D) \<or> (0x1C \<le> c \<and> c \<le> 0x20) \<or> c = 0x85 \<or> c = 0xA0
      \<or> c = 0x1680 \<or> (0x2000 \<le> c \<and> c \<le> 0x200A) \<or> c = 0x2028 \<or> c = 0x2029
      \<or> c = 0x202F \<or> c = 0x205F \<or> c = 0x3000)"

definition strip :: "ustr \<Rightarrow> ustr" where
  "strip s = rev (dropWhile isspace (rev (dropWhile isspace s)))"

text \<open>\<open>str(n)\<close> for a natural number, and \<open>sep.join(xs)\<close>.\<close>

fun str_nat :: "nat \<Rightarrow> ustr" where
  "str_nat n = (if n < 10 then [48 + n] else str_nat (n div 10) @ [48 + n mod 10])"

declare str_nat.simps [simp del]

fun join :: "'a list \<Rightarrow> 'a list list \<Rightarrow> 'a list" where
  "join sep [] = []"
| "join sep [x] = x"
| "join sep (x # y # ys) = x @ sep @ join sep (y # ys)"

record CoralAgent =
  history :: "ustr deque"
  tools_description :: string

text \<open>
  \<open>coral_agent\<close> is \<open>None\<close> when the attribute is missing or is not a \<open>CoralAgent\<close>
  (the test of line 25).
\<close>

record ConversationManager =
  latest_transcript :: "ustr option"
  coral_agent :: "CoralAgent option"

text \<open>The argument \<open>input_text\<close>: \<open>None\<close>, a string, or the dictionary of a voice call.\<close>

datatype input_text = NoneArg | StrArg ustr | DictArg "string \<rightharpoonup> ustr"

text \<open>Line 42: the numbered history handed to the executor.\<close>

definition history_str :: "ustr deque \<Rightarrow> ustr" where
  "history_str h =
     (if items h \<noteq> []
      then join [0x0A] (map (\<lambda>(i, q). str_nat (i + 1) @ ustr ''. '' @ q) (enumerate 0 (items h)))
      else ustr ''None'')"

text \<open>
  Lines 29 to 39: the text that goes to the executor, if there is any. \<open>usable v\<close> is
  the test \<open>v and v.strip()\<close>, and \<open>utext_of\<close> the text of a value known to be a
  string.
\<close>

definition usable :: "ustr option \<Rightarrow> bool" where
  "usable v = (case v of None \<Rightarrow> False | Some s \<Rightarrow> s \<noteq> [] \<and> strip s \<noteq> [])"

definition utext_of :: "ustr option \<Rightarrow> ustr" where
  "utext_of v = (case v of None \<Rightarrow> [] | Some s \<Rightarrow> s)"

definition coral_agent_input :: "ConversationManager \<Rightarrow> input_text \<Rightarrow> ustr option" where
  "coral_agent_input self input_text =
     (let input_text' =
        (case input_text of
           DictArg d \<Rightarrow> (case d ''transcript'' of None \<Rightarrow> Some [] | Some t \<Rightarrow> Some t)
         | StrArg s \<Rightarrow> Some s
         | NoneArg \<Rightarrow> None)
      in if usable input_text' then Some (strip (utext_of input_text'))
         else if usable (latest_transcript self) then Some (strip (utext_of (latest_transcript self)))
         else None)"

text \<open>
  \<open>call_coral_agent\<close> (lines 23 to 56). \<open>ainvoke\<close> is what
  \<open>asyncio.run(self.coral_agent.agent_executor.ainvoke(...))\<close> does in this call, given
  \<open>input_query\<close>, \<open>coral_tools_description\<close> and \<open>history\<close>: it raises, or it returns
  the result dictionary. The function returns its value (or the exception that leaves
  it) and the manager after the call.
\<close>

definition call_coral_agent ::
  "(ustr \<Rightarrow> string \<Rightarrow> ustr \<Rightarrow> exn + (string \<rightharpoonup> ustr)) \<Rightarrow> ConversationManager \<Rightarrow> input_text
     \<Rightarrow> (exn + ustr) \<times> ConversationManager" where
  "call_coral_agent ainvoke self input_text =
     (case coral_agent self of
        None \<Rightarrow> (Inr (ustr ''Error: CoralAgent not properly initialized''), self)
      | Some agent \<Rightarrow>
          (case coral_agent_input self input_text of
             None \<Rightarrow> (Inr (ustr ''Error: No valid input or transcript available''), self)
           | Some query \<Rightarrow>
               (case ainvoke query (tools_description agent) (history_str (history agent)) of
                  Inr result \<Rightarrow>
                    (Inr (case result ''output'' of
                            None \<Rightarrow> ustr ''No response from CoralAgent''
                          | Some out \<Rightarrow> out),
                     self\<lparr>coral_agent :=
                            Some (agent\<lparr>history := deque_append (history agent) query\<rparr>)\<rparr>)
                | Inl e \<Rightarrow>
                    if is_Exception e
                    then (Inr (ustr ''Error in CoralAgent: '' @ ustr (str_exn e)), self)
                    else (Inl e, self))))"

text \<open>The queries held by the history of a manager.\<close>

definition history_of :: "ConversationManager \<Rightarrow> ustr list option" where
  "history_of self = map_option (\<lambda>a. items (history a)) (coral_agent self)"

section \<open>Voice-Agent: the voice session\<close>

text \<open>
  The calls made around a voice session, in their order. \<open>WaitForSessionEnd\<close> is
  the call \<open>conversation.wait_for_session_end()\<close>, \<open>WaitFor\<close> the call of
  \<open>asyncio.wait_for\<close> on its value, with the timeout in seconds.
\<close>

datatype voice_event =
    SignalHandlerInstalled
  | StartSession
  | WaitForSessionEnd
  | WaitFor real
  | EndSession
  | Print string

text \<open>
  What happens around one voice session. \<open>start_session\<close> is the exception that
  \<open>conversation.start_session()\<close> raises, if any. \<open>session_end\<close> tells when (in
  seconds after the call of line 108) the session ends by itself, and the
  conversation id the provider has given by then (\<open>None\<close> when it gave none); it is
  \<open>None\<close> for a session that never ends by itself. \<open>sigint\<close> tells when the operator
  presses Ctrl+C, if ever. \<open>type_error\<close> is the text of the \<open>TypeError\<close> that
  \<open>asyncio.wait_for\<close> raises for a value that cannot be awaited; it depends on the
  version of Python.
\<close>

record session_world =
  start_session :: "exn option"
  session_end :: "(real \<times> string option) option"
  sigint :: "real option"
  type_error :: string

text \<open>
  \<open>main.py\<close> imports the synchronous \<open>Conversation\<close> class of the provider's
  library: \<open>start_session()\<close> and \<open>end_session()\<close> are called without \<open>await\<close>, and
  the client tools are registered with \<open>is_async=False\<close>. Its
  \<open>wait_for_session_end()\<close> is an ordinary blocking call: it returns the conversation
  id once the session has ended, and does not return before. A Ctrl+C that arrives
  while it blocks runs the signal handler, whose exception leaves the call.
\<close>

definition interrupted :: "session_world \<Rightarrow> bool" where
  "interrupted w =
     (case sigint w of
        None \<Rightarrow> False
      | Some i \<Rightarrow> (case session_end w of None \<Rightarrow> True | Some (t, c) \<Rightarrow> i < t))"

text \<open>
  \<open>signal_handler\<close> (lines 94 to 97): it ends the session, prints, and raises
  \<open>KeyboardInterrupt\<close>.
\<close>

definition signal_handler :: "voice_event list \<times> exn" where
  "signal_handler = ([EndSession, Print (CHR 0x0A # ''Voice session terminated.'')], KeyboardInterrupt)"

text \<open>
  \<open>conversation.wait_for_session_end()\<close>, the argument of line 108, which is
  evaluated before \<open>asyncio.wait_for\<close> is entered: the calls made meanwhile and the
  value returned or the exception raised; \<open>None\<close> when the call never returns.
\<close>

definition wait_for_session_end :: "session_world \<Rightarrow> (voice_event list \<times> (exn + string option)) option" where
  "wait_for_session_end w =
     (if interrupted w
      then (case signal_handler of (h, e) \<Rightarrow> Some (h, Inl e))
      else (case session_end w of
              None \<Rightarrow> None
            | Some (t, conversation_id) \<Rightarrow> Some ([], Inr conversation_id)))"

text \<open>
  \<open>await asyncio.wait_for(v, timeout)\<close> for a value \<open>v\<close> that is a string or
  \<open>None\<close>: such a value cannot be awaited, and the call raises \<open>TypeError\<close>,
  whatever the timeout.
\<close>

definition wait_for :: "string \<Rightarrow> string option \<Rightarrow> real \<Rightarrow> exn + string option" where
  "wait_for type_error_text v timeout = Inl (Exception type_error_text)"

text \<open>
  The \<open>except\<close> clauses of \<open>run_voice_session\<close> (lines 111 to 118), in their order:
  the calls made and the exception that still leaves the function.
\<close>

fun handlers :: "exn \<Rightarrow> voice_event list \<times> exn option" where
  "handlers TimeoutError = ([Print ''Voice session timed out after 2 minutes.'', EndSession], None)"
| "handlers KeyboardInterrupt = ([], None)"
| "handlers (Exception m) = ([Print (''Error in voice session: '' @ m), EndSession], None)"
| "handlers (BaseException m) = ([], Some (BaseException m))"

text \<open>
  \<open>run_voice_session\<close> (lines 100 to 118): the calls made and the exception that
  leaves the function; \<open>None\<close> when the function never returns.
\<close>

definition run_voice_session :: "session_world \<Rightarrow> (voice_event list \<times> exn option) option" where
  "run_voice_session w =
     (case start_session w of
        Some e \<Rightarrow>
          (case handlers e of (t, x) \<Rightarrow> Some ([SignalHandlerInstalled, StartSession] @ t, x))
      | None \<Rightarrow>
          (case wait_for_session_end w of
             None \<Rightarrow> None
           | Some (h, Inl e) \<Rightarrow>
               (case handlers e of (t, x) \<Rightarrow>
                  Some ([SignalHandlerInstalled, StartSession, WaitForSessionEnd] @ h @ t, x))
           | Some (h, Inr v) \<Rightarrow>
               (case wait_for (type_error w) v 120 of
                  Inl e \<Rightarrow>
                    (case handlers e of (t, x) \<Rightarrow>
                       Some ([SignalHandlerInstalled, StartSession, WaitForSessionEnd] @ h
                               @ [WaitFor 120] @ t, x))
                | Inr conversation_id \<Rightarrow>
                    Some ([SignalHandlerInstalled, StartSession, WaitForSessionEnd] @ h
                            @ [WaitFor 120]
                            @ (if truthy conversation_id
                               then [Print (''Voice session ended. Conversation ID: ''
                                             @ text_of conversation_id)]
                               else []),
                          None))))"

text \<open>
  The voice branch of \<open>main\<close> (lines 146 to 150) with the \<open>except\<close> clauses of the
  loop body (lines 157 to 162): the calls made, and the exception that leaves the
  loop of \<open>main\<close> (\<open>None\<close> when the loop goes on to its next prompt).
\<close>

definition voice_mode :: "session_world \<Rightarrow> (voice_event list \<times> exn option) option" where
  "voice_mode w =
     (case run_voice_session w of
        None \<Rightarrow> None
      | Some (t, None) \<Rightarrow>
          Some (Print ''Switching to voice mode (2-minute timeout). Speak now or press Ctrl+C to return to text mode.''
                  # t @ [Print ''Returning to text mode.''], None)
      | Some (t, Some e) \<Rightarrow>
          Some (Print ''Switching to voice mode (2-minute timeout). Speak now or press Ctrl+C to return to text mode.''
                  # t @ (if e = KeyboardInterrupt then [Print (CHR 0x0A # ''Returning to text mode.'')]
                         else if is_Exception e then [Print (''Error: '' @ str_exn e)]
                         else []),
                if e = KeyboardInterrupt \<or> is_Exception e then None else Some e))"

text \<open>
  \<open>handle_interrupt\<close> (line 98) installs the signal handler and nothing removes it.
  When the Ctrl+C arrives after the voice session is over, \<open>main\<close> is at its prompt
  (line 142): the handler of that session runs, and its \<open>KeyboardInterrupt\<close> is caught
  by the \<open>except\<close> clause of lines 157 to 159.
\<close>

definition sigint_at_prompt :: "voice_event list \<times> exn option" where
  "sigint_at_prompt =
     (case signal_handler of (h, e) \<Rightarrow> (h @ [Print (CHR 0x0A # ''Returning to text mode.'')], None))"

text \<open>
  The voice branch of \<open>main\<close>, followed by the prompt when the Ctrl+C of the world
  has not arrived during the wait of the session.
\<close>

definition voice_mode_then_prompt :: "session_world \<Rightarrow> (voice_event list \<times> exn option) option" where
  "voice_mode_then_prompt w =
     (case voice_mode w of
        None \<Rightarrow> None
      | Some (t, Some e) \<Rightarrow> Some (t, Some e)
      | Some (t, None) \<Rightarrow>
          (case sigint w of
             None \<Rightarrow> Some (t, None)
           | Some i \<Rightarrow>
               if start_session w = None \<and> interrupted w
               then Some (t, None)
               else (case sigint_at_prompt of (p, x) \<Rightarrow> Some (t @ p, x))))"

text \<open>How often \<open>conversation.end_session()\<close> is called.\<close>

definition end_session_calls :: "voice_event list \<Rightarrow> nat" where
  "end_session_calls t = count_list t EndSession"

text \<open>
  Sessions: one whose provider never reports an end, one whose provider reports the
  end after 150 seconds, one in which the operator presses Ctrl+C after 30 seconds,
  and one that ends after 150 seconds with a Ctrl+C after 200 seconds.
\<close>

definition world_silent :: session_world where
  "world_silent =
     \<lparr>start_session = None, session_end = None, sigint = None,
      type_error = ''An asyncio.Future, a coroutine or an awaitable is required''\<rparr>"

definition world_late :: session_world where
  "world_late =
     \<lparr>start_session = None, session_end = Some (150, Some ''c1''), sigint = None,
      type_error = ''An asyncio.Future, a coroutine or an awaitable is required''\<rparr>"

definition world_ctrl_c :: session_world where
  "world_ctrl_c =
     \<lparr>start_session = None, session_end = None, sigint = Some 30,
      type_error = ''An asyncio.Future, a coroutine or an awaitable is required''\<rparr>"

definition world_late_ctrl_c :: session_world where
  "world_late_ctrl_c =
     \<lparr>start_session = None, session_end = Some (150, Some ''c1''), sigint = Some 200,
      type_error = ''An asyncio.Future, a coroutine or an awaitable is required''\<rparr>"

section \<open>Scenarios\<close>

text \<open>Messages, engines and managers used to run the definitions on concrete inputs.\<close>

definition msg_valid :: dict where
  "msg_valid = [''threadId'' \<mapsto> ''t1'', ''senderId'' \<mapsto> ''a1'', ''content'' \<mapsto> ''go to google'']"


definition msg_no_thread :: dict where
  "msg_no_thread = [''senderId'' \<mapsto> ''a1'', ''content'' \<mapsto> ''go to google'']"

definition msg_other :: dict where
  "msg_other = [''threadId'' \<mapsto> ''t2'', ''senderId'' \<mapsto> ''a2'', ''content'' \<mapsto> ''click store'']"

definition manager0 :: ConversationManager where
  "manager0 =
     \<lparr>latest_transcript = None,
      coral_agent = Some \<lparr>history = appends initial_history [ustr ''one'', ustr ''two'', ustr ''three''],
                          tools_description = ''tools''\<rparr>\<rparr>"

definition engine_ok :: "ustr \<Rightarrow> string \<Rightarrow> ustr \<Rightarrow> exn + (string \<rightharpoonup> ustr)" where
  "engine_ok q d h = Inr [''output'' \<mapsto> ustr ''done: '' @ q]"

definition engine_fails :: "ustr \<Rightarrow> string \<Rightarrow> ustr \<Rightarrow> exn + (string \<rightharpoonup> ustr)" where
  "engine_fails q d h = Inl (Exception ''model unavailable'')"

section \<open>Properties of the bounded history\<close>

lemma maxlen_deque_append: "maxlen (deque_append d x) = maxlen d"
  by (simp add: deque_append_def Let_def split: option.splits)

lemma maxlen_appends: "maxlen (appends d qs) = maxlen d"
  unfolding appends_def
  by (induction qs arbitrary: d) (simp_all add: maxlen_deque_append)

lemma appends_snoc: "appends d (qs @ [q]) = deque_append (appends d qs) q"
  by (simp add: appends_def)

lemma items_appends_initial:
  "items (appends initial_history qs) = drop (length qs - 3) qs"
proof (induction qs rule: rev_induct)
  case Nil
  show ?case by (simp add: appends_def initial_history_def deque_def)
next
  case (snoc q qs)
  have m: "maxlen (appends initial_history qs) = Some 3"
    by (simp add: maxlen_appends initial_history_def deque_def)
  show ?case
  proof (cases "length qs < 3")
    case True
    then show ?thesis
      using snoc m by (simp add: appends_snoc deque_append_def Let_def)
  next
    case False
    then have "drop (length qs - 3) qs \<noteq> []" by simp
    moreover have "length (drop (length qs - 3) qs) = 3" using False by simp
    moreover have "Suc (length qs) - 3 = Suc (length qs - 3)" using False by simp
    ultimately show ?thesis
      using snoc m
      by (simp add: appends_snoc deque_append_def Let_def drop_Suc tl_drop tl_append2)
  qed
qed

text \<open>
  Claim C6. The history of prior queries, created as \<open>deque(maxlen=3)\<close> and changed
  only by \<open>append\<close>, never holds more than 3 items after any sequence of insertions;
  it always holds the (at most 3) most recent queries in insertion order; and
  appending a fourth query \<open>d\<close> to a history holding \<open>a, b, c\<close> evicts exactly the
  oldest one, \<open>a\<close>, leaving \<open>b, c, d\<close>.
\<close>

theorem bounded_history_fifo:
  "length (items (appends initial_history qs)) \<le> 3
   \<and> items (appends initial_history qs) = drop (length qs - 3) qs
   \<and> items (appends initial_history [a, b, c]) = [a, b, c]
   \<and> items (deque_append (appends initial_history [a, b, c]) d) = [b, c, d]"
proof -
  have "items (appends initial_history [a, b, c, d]) = [b, c, d]"
    by (simp add: items_appends_initial)
  moreover have "appends initial_history [a, b, c, d]
      = deque_append (appends initial_history [a, b, c]) d"
    using appends_snoc [of initial_history "[a, b, c]" d] by simp
  ultimately show ?thesis
    by (simp add: items_appends_initial)
qed


section \<open>Properties of the mention loop\<close>

subsection \<open>Auxiliary facts\<close>

lemma emit_tuple: "emit es (s, t, x) = (s, es @ t, x)"
  by (simp add: emit_def)

lemma handle_batch_head: "handle_batch w step (m # rest) = handle_batch w step [m]"
  by (simp add: handle_batch_def)

lemma loop_iteration_cases:
  "loop_iteration p w step =
     (if raised_of (try_block p w step) = None then try_block p w step
      else if is_Exception (the (raised_of (try_block p w step)))
      then (step_of (try_block p w step),
            events_of (try_block p w step)
              @ [LogError (''Error in agent loop: '' @ str_exn (the (raised_of (try_block p w step)))),
                 LogDebugTraceback], None)
      else try_block p w step)"
  by (cases "try_block p w step")
     (auto simp: loop_iteration_def raised_of_def step_of_def events_of_def split: option.splits)

lemma sends_reply_missing:
  "sends (events_of (reply_missing_fields w step t s)) = [SendMessage t ''Error: Missing message fields'' [s]]"
  "dispatches (events_of (reply_missing_fields w step t s)) = []"
  "step_of (reply_missing_fields w step t s) = step"
  by (simp_all add: reply_missing_fields_def emit_tuple events_of_def step_of_def sends_def dispatches_def
      split: option.splits)

lemma dispatch_and_reply_counts:
  "length (sends (events_of (dispatch_and_reply w step t s q))) \<le> Suc 0"
  "length (dispatches (events_of (dispatch_and_reply w step t s q))) \<le> Suc 0"
  by (simp_all add: dispatch_and_reply_def emit_tuple events_of_def sends_def dispatches_def
      split: option.splits sum.splits)

lemma handle_message_counts:
  "length (sends (events_of (handle_message w step m))) \<le> Suc 0"
  "length (dispatches (events_of (handle_message w step m))) \<le> Suc 0"
  by (simp_all add: handle_message_def Let_def sends_reply_missing dispatch_and_reply_counts)

lemma quiet_outcome:
  "sends (events_of (s, [], x)) = []" "sends (events_of (s, [Sleep k], x)) = []"
  "dispatches (events_of (s, [], x)) = []" "dispatches (events_of (s, [Sleep k], x)) = []"
  by (simp_all add: events_of_def sends_def dispatches_def)

lemma handle_batch_counts:
  "length (sends (events_of (handle_batch w step ms))) \<le> Suc 0"
  "length (dispatches (events_of (handle_batch w step ms))) \<le> Suc 0"
proof -
  show "length (sends (events_of (handle_batch w step ms))) \<le> Suc 0"
  proof (cases ms)
    case Nil
    then show ?thesis by (simp add: handle_batch_def quiet_outcome)
  next
    case (Cons m rest)
    then show ?thesis
      by (cases "truthy (m ''threadId'')") (simp_all add: handle_batch_def quiet_outcome handle_message_counts)
  qed
  show "length (dispatches (events_of (handle_batch w step ms))) \<le> Suc 0"
  proof (cases ms)
    case Nil
    then show ?thesis by (simp add: handle_batch_def quiet_outcome)
  next
    case (Cons m rest)
    then show ?thesis
      by (cases "truthy (m ''threadId'')") (simp_all add: handle_batch_def quiet_outcome handle_message_counts)
  qed
qed

lemma try_block_counts:
  "length (sends (events_of (try_block p w step))) \<le> Suc 0"
  "length (dispatches (events_of (try_block p w step))) \<le> Suc 0"
proof -
  have a: "sends (events_of (emit [GetResources] r)) = sends (events_of r)"
          "sends (events_of (emit [WaitForMentions n] r)) = sends (events_of r)"
          "dispatches (events_of (emit [GetResources] r)) = dispatches (events_of r)"
          "dispatches (events_of (emit [WaitForMentions n] r)) = dispatches (events_of r)" for r n
    by (cases r; simp add: emit_tuple events_of_def sends_def dispatches_def)+
  show "length (sends (events_of (try_block p w step))) \<le> Suc 0"
    by (simp add: try_block_def a quiet_outcome handle_batch_counts split: option.splits sum.splits)
  show "length (dispatches (events_of (try_block p w step))) \<le> Suc 0"
    by (simp add: try_block_def a quiet_outcome handle_batch_counts split: option.splits sum.splits)
qed

lemma loop_iteration_sends:
  "sends (events_of (loop_iteration p w step)) = sends (events_of (try_block p w step))"
  "dispatches (events_of (loop_iteration p w step)) = dispatches (events_of (try_block p w step))"
  by (simp_all add: loop_iteration_cases events_of_def sends_def dispatches_def)











lemmas scenario_defs =
  loop_iteration_def try_block_def world_of_def parse_const_def no_new_messages_def
  handle_batch_def handle_message_def truthy_def py_all_def text_of_def fmt_def
  dispatch_and_reply_def reply_missing_fields_def emit_tuple SLEEP_INTERVAL_def
  events_of_def step_of_def sends_def dispatches_def

text \<open>
  When the engine returns, the answer goes out in exactly one \<open>send_message\<close> call, to
  the thread of the message and mentioning its sender.
\<close>

lemma successful_dispatch_replies_once:
  assumes "process_agent_query w q None None step = Inr answer"
  shows "sends (events_of (dispatch_and_reply w step thread_id sender_id q))
           = [SendMessage thread_id answer [sender_id]]"
  using assms
  by (simp add: dispatch_and_reply_def emit_tuple events_of_def sends_def split: option.splits)

subsection \<open>The claims about the loop\<close>

text \<open>
  Claim C1. Every message that reaches the dispatch stage is answered by exactly one
  \<open>send_message\<close> call, also when the dispatch fails. The loop does not do this:
  for the well-formed message \<open>{threadId: t1, senderId: a1, content: go to google}\<close>
  and an engine that raises \<open>Exception("boom")\<close>, the pass makes the calls below and
  no \<open>send_message\<close> is among them; the exception is logged and the sender hears
  nothing.
\<close>

theorem failed_dispatch_gets_no_reply:
  "loop_iteration (parse_const [msg_valid])
     (world_of (Inr (NonStr ())) (Inl (Exception ''boom'')) None) 0
   = (0, [GetResources, WaitForMentions 30000,
          ProcessAgentQuery ''go to google'' None None 0,
          LogError ''Error in agent loop: boom'', LogDebugTraceback], None)"
  by (simp add: scenario_defs msg_valid_def)





text \<open>
  Claim C3. An exception raised in a pass is caught at the loop boundary, logged,
  followed by a fixed backoff sleep, and the loop goes on. The \<open>except\<close> clause logs and
  goes on, but it does not sleep: when \<open>wait_for_mentions\<close> raises
  \<open>Exception("hub down")\<close>, the pass ends without any \<open>Sleep\<close>, and
  \<open>ERROR_RETRY_INTERVAL\<close> is never used.
\<close>

theorem caught_exception_no_backoff:
  "loop_iteration (parse_const [])
     (world_of (Inl (Exception ''hub down'')) (Inr ''ok'') None :: unit world) 7
   = (7, [GetResources, WaitForMentions 30000,
          LogError ''Error in agent loop: hub down'', LogDebugTraceback], None)"
  by (simp add: scenario_defs)

text \<open>
  Claim C4. When the poll returns a string that contains \<open>No new messages\<close>, the
  pass calls neither the engine nor \<open>send_message\<close>, sleeps once, for
  \<open>SLEEP_INTERVAL = 1\<close> second, and the loop goes on to its next pass, where it polls
  again.
\<close>

theorem no_new_messages_sleeps_and_repolls:
  assumes "get_resources w = None"
    and "wait_for_mentions w = Inr (Str s)"
    and "sublist ''No new messages'' s"
  shows "loop_iteration p w step = (step, [GetResources, WaitForMentions 30000, Sleep 1], None)
       \<and> main_loop p (w # ws) step
           = emit [GetResources, WaitForMentions 30000, Sleep 1] (main_loop p ws step)"
proof -
  have "try_block p w step = (step, [GetResources, WaitForMentions 30000, Sleep 1], None)"
    using assms by (simp add: try_block_def no_new_messages_def emit_tuple SLEEP_INTERVAL_def)
  then have "loop_iteration p w step = (step, [GetResources, WaitForMentions 30000, Sleep 1], None)"
    by (simp add: loop_iteration_def)
  then show ?thesis by simp
qed

theorem no_new_messages_sleeps_and_repolls_witness:
  "loop_iteration (parse_const [msg_valid])
     (world_of (Inr (Str ''No new messages'')) (Inr ''ok'') None :: unit world) 3
   = (3, [GetResources, WaitForMentions 30000, Sleep 1], None)"
  using no_new_messages_sleeps_and_repolls
    [of "world_of (Inr (Str ''No new messages'')) (Inr ''ok'') None :: unit world"
        "''No new messages''" "parse_const [msg_valid]" 3 "[]"]
  by (simp add: world_of_def)

text \<open>
  Claim C5. When the poll returns a batch of more than one message, the pass is the
  pass for the batch that holds the first message alone: the other messages are
  neither validated, nor dispatched, nor answered. A pass makes at most one
  \<open>send_message\<close> call and at most one engine call.
\<close>

theorem only_first_message_processed:
  assumes "wait_for_mentions w = Inr r" "p r = Inr (m # rest)"
  shows "loop_iteration p w step = loop_iteration (parse_const [m]) w step
     \<and> length (sends (events_of (loop_iteration p w step))) \<le> 1
     \<and> length (dispatches (events_of (loop_iteration p w step))) \<le> 1"
proof -
  have "try_block p w step = try_block (parse_const [m]) w step"
    using assms by (simp add: try_block_def parse_const_def handle_batch_head [of w step m rest]
        split: option.splits)
  then have "loop_iteration p w step = loop_iteration (parse_const [m]) w step"
    by (simp add: loop_iteration_def)
  then show ?thesis by (simp add: loop_iteration_sends try_block_counts)
qed

theorem only_first_message_processed_witness:
  "loop_iteration (parse_const [msg_valid, msg_other])
       (world_of (Inr (NonStr ())) (Inr ''Loaded google.com'') None) 0
     = loop_iteration (parse_const [msg_valid])
       (world_of (Inr (NonStr ())) (Inr ''Loaded google.com'') None) 0
   \<and> loop_iteration (parse_const [msg_valid, msg_other])
       (world_of (Inr (NonStr ())) (Inr ''Loaded google.com'') None) 0
     = (1, [GetResources, WaitForMentions 30000,
            ProcessAgentQuery ''go to google'' None None 0,
            SendMessage (Some ''t1'') ''Loaded google.com'' [Some ''a1''],
            Sleep 1], None)"
  using only_first_message_processed
    [of "world_of (Inr (NonStr ())) (Inr ''Loaded google.com'') None" "NonStr ()"
        "parse_const [msg_valid, msg_other]" msg_valid "[msg_other]" 0]
  by (simp add: scenario_defs msg_valid_def)


text \<open>
  Claim C10. When the parsed batch is empty, or the \<open>threadId\<close> of its first
  message is absent or empty, the pass calls neither \<open>send_message\<close> nor the engine,
  whatever the other fields of the message hold; it sleeps one interval and the loop
  goes on to its next pass.
\<close>

theorem missing_thread_dropped_silently:
  assumes "get_resources w = None" "wait_for_mentions w = Inr r" "\<not> no_new_messages r" "p r = Inr ms"
     "case ms of [] \<Rightarrow> True | m # rest \<Rightarrow> \<not> truthy (m ''threadId'')"
  shows "loop_iteration p w step = (step, [GetResources, WaitForMentions 30000, Sleep 1], None)
    \<and> main_loop p (w # ws) step = emit [GetResources, WaitForMentions 30000, Sleep 1] (main_loop p ws step)"
proof -
  have "handle_batch w step ms = (step, [Sleep 1], None)"
    using assms(5) by (simp add: handle_batch_def SLEEP_INTERVAL_def split: list.splits)
  then have "try_block p w step = (step, [GetResources, WaitForMentions 30000, Sleep 1], None)"
    using assms by (simp add: try_block_def emit_tuple)
  then have "loop_iteration p w step = (step, [GetResources, WaitForMentions 30000, Sleep 1], None)"
    by (simp add: loop_iteration_def)
  then show ?thesis by simp
qed

theorem missing_thread_dropped_silently_witness:
  "truthy (msg_no_thread ''senderId'')
   \<and> loop_iteration (parse_const [msg_no_thread])
       (world_of (Inr (NonStr ())) (Inr ''Loaded google.com'') None) 0
     = (0, [GetResources, WaitForMentions 30000, Sleep 1], None)
   \<and> loop_iteration (parse_const [])
       (world_of (Inr (NonStr ())) (Inr ''Loaded google.com'') None) 0
     = (0, [GetResources, WaitForMentions 30000, Sleep 1], None)"
  using missing_thread_dropped_silently
    [of "world_of (Inr (NonStr ())) (Inr ''Loaded google.com'') None" "NonStr ()"
        "parse_const [msg_no_thread]" "[msg_no_thread]" 0 "[]"]
    missing_thread_dropped_silently
    [of "world_of (Inr (NonStr ())) (Inr ''Loaded google.com'') None" "NonStr ()"
        "parse_const []" "[]" 0 "[]"]
  by (simp add: world_of_def parse_const_def no_new_messages_def msg_no_thread_def truthy_def)

section \<open>Properties of the Voice-Agent\<close>

text \<open>
  Claim C7. In every call of \<open>call_coral_agent\<close> on an initialised manager, the
  query is appended to the history exactly when the executor returns: then the manager
  after the call is the manager before it with the query appended to the history;
  when the executor raises, or when there is no usable input and the executor is not
  called at all, the manager, and with it the history, is left as it was.
\<close>

theorem history_appended_iff_success:
  assumes "coral_agent self = Some agent"
  shows "(\<forall>query. coral_agent_input self input_text = Some query \<longrightarrow>
            (case ainvoke query (tools_description agent) (history_str (history agent)) of
               Inr result \<Rightarrow>
                 snd (call_coral_agent ainvoke self input_text)
                   = self\<lparr>coral_agent := Some (agent\<lparr>history := deque_append (history agent) query\<rparr>)\<rparr>
             | Inl e \<Rightarrow> snd (call_coral_agent ainvoke self input_text) = self))
       \<and> (coral_agent_input self input_text = None \<longrightarrow>
            snd (call_coral_agent ainvoke self input_text) = self)"
  using assms by (auto simp: call_coral_agent_def split: sum.splits)

theorem history_appended_iff_success_witness:
  "history_of (snd (call_coral_agent engine_ok manager0 (StrArg (ustr '' four ''))))
     = Some [ustr ''two'', ustr ''three'', ustr ''four'']
   \<and> history_of (snd (call_coral_agent engine_fails manager0 (StrArg (ustr '' four ''))))
     = Some [ustr ''one'', ustr ''two'', ustr ''three'']
   \<and> history_of (snd (call_coral_agent engine_ok manager0 NoneArg))
     = Some [ustr ''one'', ustr ''two'', ustr ''three'']"
  using history_appended_iff_success
      [of manager0 "the (coral_agent manager0)" "StrArg (ustr '' four '')" engine_ok]
    history_appended_iff_success
      [of manager0 "the (coral_agent manager0)" "StrArg (ustr '' four '')" engine_fails]
    history_appended_iff_success
      [of manager0 "the (coral_agent manager0)" NoneArg engine_ok]
  by (simp add: manager0_def coral_agent_input_def usable_def strip_def isspace_def utext_of_def
      ustr_def engine_ok_def engine_fails_def history_of_def appends_def initial_history_def
      deque_def deque_append_def)

subsection \<open>The voice session\<close>

text \<open>
  A session that starts and never ends by itself, with no Ctrl+C: the function never
  returns, whatever the time that passes.
\<close>

lemma endless_session_blocks:
  assumes "start_session w = None" and "session_end w = None" and "sigint w = None"
  shows "run_voice_session w = None"
  using assms by (simp add: run_voice_session_def wait_for_session_end_def interrupted_def)

text \<open>
  The timeout clause of lines 111 to 113 can only be entered by an exception of
  \<open>start_session()\<close>: the wait of line 108 never raises \<open>TimeoutError\<close>.
\<close>

lemma timeout_clause_not_reached:
  assumes "start_session w = None" and "run_voice_session w = Some (t, x)"
  shows "Print ''Voice session timed out after 2 minutes.'' \<notin> set t"
proof (cases "interrupted w")
  case True
  then show ?thesis
    using assms
    by (auto simp: run_voice_session_def wait_for_session_end_def signal_handler_def)
next
  case False
  then show ?thesis
    using assms
    by (auto simp: run_voice_session_def wait_for_session_end_def wait_for_def
        split: option.splits)
qed

text \<open>
  A Ctrl+C during the wait: the handler ends the session, once, and \<open>main\<close> goes on
  to its next prompt.
\<close>

lemma interrupt_returns_to_prompt:
  assumes "start_session w = None" and "interrupted w"
  shows "voice_mode w =
     Some ([Print ''Switching to voice mode (2-minute timeout). Speak now or press Ctrl+C to return to text mode.'',
            SignalHandlerInstalled, StartSession, WaitForSessionEnd, EndSession,
            Print (CHR 0x0A # ''Voice session terminated.''),
            Print ''Returning to text mode.''], None)"
  using assms
  by (simp add: voice_mode_def run_voice_session_def wait_for_session_end_def signal_handler_def)

text \<open>
  Claim C9. A voice session in which the provider reports no end within 120 seconds
  is ended as timed out, with \<open>end_session\<close> called at most once; and an operator
  interrupt ends the session and gives control back. The function does not do the
  first: \<open>wait_for_session_end()\<close> blocks until the session is over, so nothing happens
  after 120 seconds. A session that never ends keeps the function from returning; a
  session that ends after 150 seconds is reported as an error (the \<open>TypeError\<close> of
  \<open>asyncio.wait_for\<close>), not as timed out; and since the signal handler stays
  installed, a Ctrl+C after that session calls \<open>end_session\<close> a second time.
\<close>

theorem voice_session_never_times_out:
  "run_voice_session world_silent = None
   \<and> run_voice_session world_late
     = Some ([SignalHandlerInstalled, StartSession, WaitForSessionEnd, WaitFor 120,
              Print ''Error in voice session: An asyncio.Future, a coroutine or an awaitable is required'',
              EndSession], None)
   \<and> voice_mode_then_prompt world_late_ctrl_c
     = Some ([Print ''Switching to voice mode (2-minute timeout). Speak now or press Ctrl+C to return to text mode.'',
              SignalHandlerInstalled, StartSession, WaitForSessionEnd, WaitFor 120,
              Print ''Error in voice session: An asyncio.Future, a coroutine or an awaitable is required'',
              EndSession,
              Print ''Returning to text mode.'',
              EndSession,
              Print (CHR 0x0A # ''Voice session terminated.''),
              Print (CHR 0x0A # ''Returning to text mode.'')], None)"
  by (simp add: world_silent_def world_late_def world_late_ctrl_c_def voice_mode_then_prompt_def
      voice_mode_def run_voice_session_def wait_for_session_end_def wait_for_def interrupted_def
      signal_handler_def sigint_at_prompt_def)

end
